theory Spec2Isabelle
  imports Main
begin

section \<open>JavaScript values\<close>

text \<open>
  The server handles untyped data: the body of an API response and the data blob of a
  scraped page are whatever \<^verbatim>\<open>JSON.parse\<close> returned.  A value is modelled by the
  datatype below.  Numbers are integers (valuations, identifiers, zip codes and scores
  are); an object is an association list read with \<open>map_of\<close>.  Strings are lists of
  bytes, so case folding and the character classes of the regular expressions are the
  ASCII ones.  Members inherited from a prototype (methods such as \<^verbatim>\<open>toString\<close>) are
  not part of the model: a property read sees own keys, array and string indices and
  \<^verbatim>\<open>length\<close>.
\<close>

datatype json =
    JUndefined
  | JNull
  | JBool bool
  | JNum int
  | JStr string
  | JArr "json list"
  | JObj "(string \<times> json) list"

text \<open>Truthiness, as tested by \<^verbatim>\<open>!x\<close>, \<^verbatim>\<open>x ? a : b\<close>, \<^verbatim>\<open>x || y\<close> and \<^verbatim>\<open>x && y\<close>.\<close>

fun truthy :: "json \<Rightarrow> bool" where
  "truthy JUndefined = False"
| "truthy JNull = False"
| "truthy (JBool b) = b"
| "truthy (JNum n) = (n \<noteq> 0)"
| "truthy (JStr s) = (s \<noteq> [])"
| "truthy (JArr xs) = True"
| "truthy (JObj kvs) = True"

fun nullish :: "json \<Rightarrow> bool" where
  "nullish JUndefined = True"
| "nullish JNull = True"
| "nullish v = False"

text \<open>\<^verbatim>\<open>a || b\<close> and \<^verbatim>\<open>a ?? b\<close> on values.\<close>

definition js_or :: "json \<Rightarrow> json \<Rightarrow> json" where
  "js_or a b = (if truthy a then a else b)"

definition js_coalesce :: "json \<Rightarrow> json \<Rightarrow> json" where
  "js_coalesce a b = (if nullish a then b else a)"

subsection \<open>Characters and strings\<close>

definition digits :: string where
  "digits = ''0123456789''"

definition upper_letters :: string where
  "upper_letters = ''ABCDEFGHIJKLMNOPQRSTUVWXYZ''"

definition lower_letters :: string where
  "lower_letters = ''abcdefghijklmnopqrstuvwxyz''"

definition is_digit :: "char \<Rightarrow> bool" where
  "is_digit c = (c \<in> set digits)"

definition is_upper :: "char \<Rightarrow> bool" where
  "is_upper c = (c \<in> set upper_letters)"

definition is_lower :: "char \<Rightarrow> bool" where
  "is_lower c = (c \<in> set lower_letters)"

text \<open>The class \<^verbatim>\<open>\w\<close>: letters, digits and the underscore.\<close>

definition is_word_char :: "char \<Rightarrow> bool" where
  "is_word_char c = (is_digit c \<or> is_upper c \<or> is_lower c \<or> c = CHR ''_'')"

text \<open>The class \<^verbatim>\<open>\s\<close>, also what \<^verbatim>\<open>trim\<close> removes: tab, line feed, vertical tab, form
  feed, carriage return, space.\<close>

definition is_space :: "char \<Rightarrow> bool" where
  "is_space c = (c \<in> set [CHR 0x09, CHR 0x0A, CHR 0x0B, CHR 0x0C, CHR 0x0D, CHR 0x20])"

text \<open>The characters \<^verbatim>\<open>.\<close> does not match.\<close>

definition is_line_terminator :: "char \<Rightarrow> bool" where
  "is_line_terminator c = (c = CHR 0x0A \<or> c = CHR 0x0D)"

text \<open>\<^verbatim>\<open>toLowerCase\<close>: an upper-case letter becomes the lower-case letter at the same place of
  the alphabet, every other character stays.\<close>

fun lower_in :: "string \<Rightarrow> string \<Rightarrow> char \<Rightarrow> char" where
  "lower_in (u # us) (l # ls) c = (if c = u then l else lower_in us ls c)"
| "lower_in us ls c = c"

definition lower_char :: "char \<Rightarrow> char" where
  "lower_char c = lower_in upper_letters lower_letters c"

definition toLowerCase :: "string \<Rightarrow> string" where
  "toLowerCase s = map lower_char s"

definition trim :: "string \<Rightarrow> string" where
  "trim s = rev (dropWhile is_space (rev (dropWhile is_space s)))"

fun startsWith :: "string \<Rightarrow> string \<Rightarrow> bool" where
  "startsWith s [] = True"
| "startsWith [] (c # t) = False"
| "startsWith (d # s) (c # t) = (d = c \<and> startsWith s t)"

text \<open>A prefix test that compares letters without case.\<close>

fun startsWith_ci :: "string \<Rightarrow> string \<Rightarrow> bool" where
  "startsWith_ci s [] = True"
| "startsWith_ci [] (c # t) = False"
| "startsWith_ci (d # s) (c # t) = (lower_char d = lower_char c \<and> startsWith_ci s t)"

text \<open>\<^verbatim>\<open>s.includes(t)\<close>: \<open>t\<close> occurs in \<open>s\<close> as a substring.\<close>

fun str_includes :: "string \<Rightarrow> string \<Rightarrow> bool" where
  "str_includes [] t = (t = [])"
| "str_includes (c # s) t = (startsWith (c # s) t \<or> str_includes s t)"

subsection \<open>Conversions between numbers and strings\<close>

definition digit_char :: "nat \<Rightarrow> char" where
  "digit_char n = digits ! n"

fun dec_of_nat :: "nat \<Rightarrow> string" where
  "dec_of_nat n =
     (if n < 10 then [digit_char n] else dec_of_nat (n div 10) @ [digit_char (n mod 10)])"

declare dec_of_nat.simps [simp del]

definition dec_of_int :: "int \<Rightarrow> string" where
  "dec_of_int i = (if i < 0 then CHR ''-'' # dec_of_nat (nat (- i)) else dec_of_nat (nat i))"

definition digit_value :: "char \<Rightarrow> nat" where
  "digit_value c = (case map_of (zip digits [0 ..< 10]) c of Some d \<Rightarrow> d | None \<Rightarrow> 0)"

definition nat_of_digits :: "string \<Rightarrow> nat" where
  "nat_of_digits s = foldl (\<lambda>acc c. 10 * acc + digit_value c) 0 s"

text \<open>\<^verbatim>\<open>String(v)\<close>, also what a template literal does to \<open>v\<close>.\<close>

fun js_String :: "json \<Rightarrow> string" and js_join :: "json list \<Rightarrow> string" where
  "js_String JUndefined = ''undefined''"
| "js_String JNull = ''null''"
| "js_String (JBool b) = (if b then ''true'' else ''false'')"
| "js_String (JNum n) = dec_of_int n"
| "js_String (JStr s) = s"
| "js_String (JArr xs) = js_join xs"
| "js_String (JObj kvs) = ''[object Object]''"
| "js_join [] = []"
| "js_join [x] = (if nullish x then [] else js_String x)"
| "js_join (x # y # ys) = (if nullish x then [] else js_String x) @ '','' @ js_join (y # ys)"

subsection \<open>Property reads\<close>

text \<open>An array index is a canonical decimal numeral: no sign, no leading zero.\<close>

definition array_index :: "string \<Rightarrow> nat option" where
  "array_index k =
     (if k \<noteq> [] \<and> list_all is_digit k \<and> (k = ''0'' \<or> hd k \<noteq> CHR ''0'')
      then Some (nat_of_digits k) else None)"

text \<open>\<^verbatim>\<open>o[k]\<close> for an \<open>o\<close> that is neither \<^verbatim>\<open>null\<close> nor \<^verbatim>\<open>undefined\<close> (there the read
  raises, and every read in the server is guarded against it).\<close>

fun get_prop :: "json \<Rightarrow> string \<Rightarrow> json" where
  "get_prop (JObj kvs) k = (case map_of kvs k of Some v \<Rightarrow> v | None \<Rightarrow> JUndefined)"
| "get_prop (JArr xs) k =
     (if k = ''length'' then JNum (int (length xs))
      else case array_index k of
             Some i \<Rightarrow> (if i < length xs then xs ! i else JUndefined)
           | None \<Rightarrow> JUndefined)"
| "get_prop (JStr s) k =
     (if k = ''length'' then JNum (int (length s))
      else case array_index k of
             Some i \<Rightarrow> (if i < length s then JStr [s ! i] else JUndefined)
           | None \<Rightarrow> JUndefined)"
| "get_prop v k = JUndefined"

text \<open>Optional chaining \<^verbatim>\<open>o?.k\<close>.\<close>

definition opt_chain :: "json \<Rightarrow> string \<Rightarrow> json" where
  "opt_chain v k = (if nullish v then JUndefined else get_prop v k)"

section \<open>Ordered path lookup\<close>

text \<open>\<^verbatim>\<open>p.split(".")\<close>: the segments of a dotted path; the empty path has one empty segment.\<close>

fun split_dot :: "string \<Rightarrow> string list" where
  "split_dot [] = [[]]"
| "split_dot (c # cs) =
     (if c = CHR ''.'' then [] # split_dot cs
      else case split_dot cs of
             w # ws \<Rightarrow> (c # w) # ws
           | [] \<Rightarrow> [[c]])"

text \<open>The reducer \<^verbatim>\<open>(o, k) => (o ? o[k] : undefined)\<close> and the walk of one path.\<close>

definition walk_step :: "json \<Rightarrow> string \<Rightarrow> json" where
  "walk_step v k = (if truthy v then get_prop v k else JUndefined)"

definition walk_path :: "json \<Rightarrow> string \<Rightarrow> json" where
  "walk_path obj p = foldl walk_step obj (split_dot p)"

text \<open>\<^verbatim>\<open>tryPaths\<close> of \<^verbatim>\<open>extractZpidAndZestimate\<close>: answers \<^verbatim>\<open>undefined\<close> when no path hits.\<close>

fun tryPaths :: "json \<Rightarrow> string list \<Rightarrow> json" where
  "tryPaths obj [] = JUndefined"
| "tryPaths obj (p # ps) =
     (let v = walk_path obj p
      in if v \<noteq> JUndefined \<and> v \<noteq> JNull then v else tryPaths obj ps)"

text \<open>\<^verbatim>\<open>pick\<close> of \<^verbatim>\<open>sendExpanded\<close> (and \<^verbatim>\<open>tryPick\<close> of the handler): the same loop, answering
  \<^verbatim>\<open>null\<close> when no path hits.\<close>

fun pick :: "json \<Rightarrow> string list \<Rightarrow> json" where
  "pick d [] = JNull"
| "pick d (p # ps) =
     (let v = walk_path d p
      in if v \<noteq> JUndefined \<and> v \<noteq> JNull then v else pick d ps)"

section \<open>Address variants\<close>

text \<open>A request field is a string or missing; \<^verbatim>\<open>x || ""\<close> reads it.\<close>

definition or_empty :: "string option \<Rightarrow> string" where
  "or_empty x = (case x of None \<Rightarrow> [] | Some s \<Rightarrow> s)"

definition field_truthy :: "string option \<Rightarrow> bool" where
  "field_truthy x = (case x of None \<Rightarrow> False | Some s \<Rightarrow> s \<noteq> [])"

definition json_of_field :: "string option \<Rightarrow> json" where
  "json_of_field x = (case x of None \<Rightarrow> JUndefined | Some s \<Rightarrow> JStr s)"

definition abbrToFull :: "(string \<times> string) list" where
  "abbrToFull =
     [('' St '', '' Street ''), ('' Dr '', '' Drive ''), ('' Rd '', '' Road ''),
      ('' Ave '', '' Avenue ''), ('' Ln '', '' Lane ''), ('' Ct '', '' Court ''),
      ('' Blvd '', '' Boulevard ''), ('' Pkwy '', '' Parkway ''),
      ('' Ter '', '' Terrace ''), ('' Cir '', '' Circle '')]"

definition fullToAbbr :: "(string \<times> string) list" where
  "fullToAbbr =
     [('' Street '', '' St ''), ('' Drive '', '' Dr ''), ('' Road '', '' Rd ''),
      ('' Avenue '', '' Ave ''), ('' Lane '', '' Ln ''), ('' Court '', '' Ct ''),
      ('' Boulevard '', '' Blvd ''), ('' Parkway '', '' Pkwy ''),
      ('' Terrace '', '' Ter ''), ('' Circle '', '' Cir '')]"

text \<open>\<^verbatim>\<open>t.replace(new RegExp(k, "gi"), v)\<close> for a literal, non-empty \<open>k\<close>: every match of \<open>k\<close>,
  letters compared without case, found from left to right without overlap, is replaced
  by \<open>v\<close>.\<close>

fun replace_ci :: "string \<Rightarrow> string \<Rightarrow> string \<Rightarrow> string" where
  "replace_ci k v [] = []"
| "replace_ci k v (c # cs) =
     (let hit = (k \<noteq> [] \<and> startsWith_ci (c # cs) k)
      in (if hit then v else [c])
         @ replace_ci k v (if hit then drop (length k - 1) cs else cs))"

definition swapWords :: "string \<Rightarrow> (string \<times> string) list \<Rightarrow> string" where
  "swapWords s m = trim (foldl (\<lambda>t (k, v). replace_ci k v t) ('' '' @ s @ '' '') m)"

text \<open>The test \<^verbatim>\<open>/\b(N|S|E|W|NE|NW|SE|SW)\b/i\<close>: a token, letters compared without case,
  that starts where the previous character is not a word character (or at the start)
  and ends where the next one is not (or at the end).\<close>

definition dir_tokens :: "string list" where
  "dir_tokens = [''N'', ''S'', ''E'', ''W'', ''NE'', ''NW'', ''SE'', ''SW'']"

definition token_at :: "string \<Rightarrow> string \<Rightarrow> bool" where
  "token_at tok s =
     (startsWith_ci s tok \<and>
      (case drop (length tok) s of [] \<Rightarrow> True | d # r \<Rightarrow> \<not> is_word_char d))"

fun dir_scan :: "bool \<Rightarrow> string \<Rightarrow> bool" where
  "dir_scan prev_word [] = False"
| "dir_scan prev_word (c # cs) =
     ((\<not> prev_word \<and> list_ex (\<lambda>tok. token_at tok (c # cs)) dir_tokens)
      \<or> dir_scan (is_word_char c) cs)"

definition hasDirectional :: "string \<Rightarrow> bool" where
  "hasDirectional base = dir_scan False base"

text \<open>The match \<^verbatim>\<open>base.match(/^(\d+)\s+(.*)$/)\<close>: a run of digits, a run of white space,
  and the rest of the input, which must hold no line terminator; the two groups are the
  digits and the rest.\<close>

definition match_house :: "string \<Rightarrow> (string \<times> string) option" where
  "match_house base =
     (let num = takeWhile is_digit base;
          r1 = dropWhile is_digit base;
          rest = dropWhile is_space r1
      in if num \<noteq> [] \<and> r1 \<noteq> [] \<and> is_space (hd r1) \<and> \<not> list_ex is_line_terminator rest
         then Some (num, rest) else None)"

text \<open>\<^verbatim>\<open>variants.add(x)\<close> on a \<^verbatim>\<open>Set\<close>, which keeps insertion order.\<close>

definition set_add :: "string list \<Rightarrow> string \<Rightarrow> string list" where
  "set_add xs x = (if x \<in> set xs then xs else xs @ [x])"

definition directional_variants :: "string \<Rightarrow> string \<Rightarrow> string list" where
  "directional_variants num rest =
     map (\<lambda>d. num @ '' '' @ d @ '' '' @ rest) [''E'', ''W'', ''N'', ''S'']"

definition generateAddressVariants :: "string option \<Rightarrow> string list" where
  "generateAddressVariants address =
     (let base = trim (or_empty address)
      in if base = [] then []
         else
           let v0 = set_add [] base;
               v1 = set_add v0 (swapWords base abbrToFull);
               v2 = set_add v1 (swapWords base fullToAbbr);
               v3 = (if \<not> hasDirectional base
                     then (case match_house base of
                             Some (num, rest) \<Rightarrow> foldl set_add v2 (directional_variants num rest)
                           | None \<Rightarrow> v2)
                     else v2)
           in filter (\<lambda>s. s \<noteq> []) v3)"

section \<open>Fuzzy selection among search results\<close>

text \<open>\<^verbatim>\<open>norm\<close>: \<^verbatim>\<open>String(s || "").toLowerCase().replace(/[^\w]/g, "").trim()\<close>.\<close>

definition norm :: "json \<Rightarrow> string" where
  "norm s = trim (filter is_word_char (toLowerCase (js_String (js_or s (JStr [])))))"

definition result_score :: "string \<Rightarrow> string \<Rightarrow> json \<Rightarrow> int" where
  "result_score targetAddr targetCity r =
     (let addrText = norm (js_or (opt_chain r ''address'') (JStr []))
      in (if str_includes addrText targetAddr then 2 else 0)
         + (if str_includes addrText targetCity then 1 else 0))"

text \<open>The loop of \<^verbatim>\<open>pickBestSearchResult\<close>, on the pair \<open>(best, bestScore)\<close>.\<close>

fun pickBest_loop :: "string \<Rightarrow> string \<Rightarrow> json \<times> int \<Rightarrow> json list \<Rightarrow> json \<times> int" where
  "pickBest_loop ta tc (best, bestScore) [] = (best, bestScore)"
| "pickBest_loop ta tc (best, bestScore) (r # rs) =
     (let score = result_score ta tc r
      in pickBest_loop ta tc (if score > bestScore then (r, score) else (best, bestScore)) rs)"

definition pickBestSearchResult :: "json list \<Rightarrow> string option \<Rightarrow> string option \<Rightarrow> json \<times> int" where
  "pickBestSearchResult results address city =
     pickBest_loop (norm (json_of_field address)) (norm (json_of_field city)) (JNull, - 1) results"

section \<open>The API lookup\<close>

text \<open>
  The outside world is a parameter of the model.  One call of \<^verbatim>\<open>fetch\<close> with its
  20 second abort either raises (time-out, transport error), answers with a status that
  is not a success, answers with a body that \<^verbatim>\<open>resp.json()\<close> cannot parse, or answers
  with a value.  The request is kept as host, key, path and the entries that \<^verbatim>\<open>toQuery\<close>
  retains; their percent-encoding into the URL is left to the transport.  A source
  answers the same request in the same way during one resolution.
\<close>

datatype fetch_result = Fetch_throws | Resp_not_ok | Resp_no_json | Resp_json json

record api_request =
  req_host :: string
  req_key :: string
  req_path :: string
  req_query :: "(string \<times> string) list"

text \<open>The result of opening a page and reading its data blob: the navigation raises, no
  blob is found, or a blob is found, whose text \<^verbatim>\<open>JSON.parse\<close> turns into a value or
  rejects (\<open>None\<close>).\<close>

datatype page_result = Page_throws string | Page_no_blob | Page_blob "json option"

record env =
  API_KEY :: "string option"
  PREFER_API_FIRST :: "string option"
  RAPIDAPI_KEY :: "string option"
  RAPIDAPI_HOST :: "string option"
  fetch :: "api_request \<Rightarrow> fetch_result"
  launch :: "string option"
  search_page :: "string \<Rightarrow> page_result"
  detail_page :: "string \<Rightarrow> page_result"
  encode_search_state :: "string \<Rightarrow> string"
  scan_zestimate :: "json \<Rightarrow> int option"
  scan_zpid :: "json \<Rightarrow> int option"

text \<open>
  \<open>launch\<close> is \<open>Some msg\<close> when starting the browser, its context or its page raises with
  that message.  \<open>encode_search_state\<close> stands for
  \<^verbatim>\<open>encodeURIComponent(JSON.stringify(sqs))\<close> as a function of the search term, and the two
  scans for the matches of \<^verbatim>\<open>/"zestimate"\s*:\s*(\d{4,9})/\<close> and \<^verbatim>\<open>/"zpid"\s*:\s*"?(\d+)"?/\<close>
  in \<^verbatim>\<open>JSON.stringify(anyObj)\<close>, read as numbers.
\<close>

text \<open>An endpoint shape: a path and the builder of its parameter object.  A template
  literal prints a missing value as \<^verbatim>\<open>undefined\<close>.\<close>

record shape =
  path :: string
  params :: "string \<Rightarrow> string option \<Rightarrow> string option \<Rightarrow> string option
               \<Rightarrow> (string \<times> string option) list"

definition template :: "string option \<Rightarrow> string" where
  "template x = (case x of None \<Rightarrow> ''undefined'' | Some s \<Rightarrow> s)"

definition params_citystatezip ::
  "string \<Rightarrow> string option \<Rightarrow> string option \<Rightarrow> string option \<Rightarrow> (string \<times> string option) list" where
  "params_citystatezip a c s z =
     [(''address'', Some a),
      (''citystatezip'', Some (trim (template c @ '', '' @ template s @ '' '' @ or_empty z)))]"

definition params_fields ::
  "string \<Rightarrow> string option \<Rightarrow> string option \<Rightarrow> string option \<Rightarrow> (string \<times> string option) list" where
  "params_fields a c s z =
     [(''address'', Some a), (''city'', c), (''state'', s), (''zipcode'', Some (or_empty z))]"

definition candidates :: "shape list" where
  "candidates =
     [\<lparr>path = ''/property'', params = params_citystatezip\<rparr>,
      \<lparr>path = ''/propertyExtended'', params = params_citystatezip\<rparr>,
      \<lparr>path = ''/propertyByAddress'', params = params_citystatezip\<rparr>,
      \<lparr>path = ''/property'', params = params_fields\<rparr>,
      \<lparr>path = ''/propertyDetails'', params = params_fields\<rparr>]"

text \<open>\<^verbatim>\<open>toQuery\<close>: the entries whose value is present and not blank.\<close>

definition toQuery :: "(string \<times> string option) list \<Rightarrow> (string \<times> string) list" where
  "toQuery obj =
     concat (map (\<lambda>(k, v). case v of
                               None \<Rightarrow> []
                             | Some s \<Rightarrow> (if trim s \<noteq> [] then [(k, s)] else [])) obj)"

text \<open>The arguments and the configuration one lookup closes over.\<close>

record lookup_args =
  l_host :: string
  l_key :: string
  l_city :: "string option"
  l_state :: "string option"
  l_zip :: "string option"

record want =
  want_city :: string
  want_state :: string
  want_zip :: string

definition want_of :: "lookup_args \<Rightarrow> want" where
  "want_of l =
     \<lparr>want_city = trim (toLowerCase (or_empty (l_city l))),
      want_state = trim (toLowerCase (or_empty (l_state l))),
      want_zip = trim (or_empty (l_zip l))\<rparr>"

datatype lookup_out =
    Lookup_ok (tried: string) (out_zestimate: json) (out_zpid: json)
              (out_property_url: json) (out_data: json)
  | Lookup_fail string

text \<open>\<^verbatim>\<open>v.toLowerCase().trim()\<close>: raises a \<^verbatim>\<open>TypeError\<close> (\<open>None\<close>) unless \<open>v\<close> is a string.\<close>

definition lower_trim :: "json \<Rightarrow> string option" where
  "lower_trim v = (case v of JStr s \<Rightarrow> Some (trim (toLowerCase s)) | _ \<Rightarrow> None)"

definition got_city :: "json \<Rightarrow> string option" where
  "got_city data =
     lower_trim (js_or (opt_chain (opt_chain data ''address'') ''city'')
                       (js_or (opt_chain data ''city'') (JStr [])))"

definition got_state :: "json \<Rightarrow> string option" where
  "got_state data =
     lower_trim (js_or (opt_chain (opt_chain data ''address'') ''state'')
                       (js_or (opt_chain data ''state'') (JStr [])))"

definition got_zip :: "json \<Rightarrow> string" where
  "got_zip data =
     trim (js_String (js_or (opt_chain (opt_chain data ''address'') ''zipcode'')
                            (js_or (opt_chain data ''zipcode'') (JStr []))))"

text \<open>\<^verbatim>\<open>data?.k ?? data?.result?.k ?? data?.data?.k ?? null\<close>.\<close>

definition essential :: "json \<Rightarrow> string \<Rightarrow> json" where
  "essential data k =
     js_coalesce (opt_chain data k)
       (js_coalesce (opt_chain (opt_chain data ''result'') k)
          (js_coalesce (opt_chain (opt_chain data ''data'') k) JNull))"

definition absolute_url :: "json \<Rightarrow> json" where
  "absolute_url rawUrl =
     (if truthy rawUrl
      then (if startsWith (js_String rawUrl) ''http'' then rawUrl
            else JStr (''https://www.zillow.com'' @ js_String rawUrl))
      else JNull)"

definition dquote :: char where
  "dquote = CHR 0x22"

text \<open>The body of the \<^verbatim>\<open>try\<close> block after \<^verbatim>\<open>resp.json()\<close>: \<open>None\<close> when the candidate is not
  returned, because the test fails or because reading the city or the state raised.\<close>

definition validate :: "want \<Rightarrow> string \<Rightarrow> string \<Rightarrow> json \<Rightarrow> lookup_out option" where
  "validate w cand_path a data =
     (case got_city data of
        None \<Rightarrow> None
      | Some gotCity \<Rightarrow>
          (case got_state data of
             None \<Rightarrow> None
           | Some gotState \<Rightarrow>
               (let gotZip = got_zip data;
                    cityMatch = (gotCity = want_city w);
                    stateMatch = (gotState = want_state w);
                    zipMatch = (want_zip w = [] \<or> gotZip = want_zip w);
                    zestimate = essential data ''zestimate'';
                    zpid = essential data ''zpid'';
                    property_url = absolute_url (essential data ''url'')
                in if cityMatch \<and> stateMatch \<and> zipMatch \<and> (truthy zestimate \<or> truthy zpid)
                   then Some (Lookup_ok (cand_path @ '' | addr='' @ [dquote] @ a @ [dquote])
                                zestimate zpid property_url data)
                   else None)))"

definition request_of :: "lookup_args \<Rightarrow> string \<Rightarrow> shape \<Rightarrow> api_request" where
  "request_of l a cand =
     \<lparr>req_host = l_host l, req_key = l_key l, req_path = path cand,
      req_query = toQuery (params cand a (l_city l) (l_state l) (l_zip l))\<rparr>"

definition attempt :: "env \<Rightarrow> lookup_args \<Rightarrow> string \<Rightarrow> shape \<Rightarrow> lookup_out option" where
  "attempt e l a cand =
     (case fetch e (request_of l a cand) of
        Resp_json data \<Rightarrow> validate (want_of l) (path cand) a data
      | _ \<Rightarrow> None)"

text \<open>The two nested loops.  Each returns what the lookup returns from inside the loop,
  if anything, and the requests issued, in order.\<close>

fun try_shapes ::
  "env \<Rightarrow> lookup_args \<Rightarrow> string \<Rightarrow> shape list \<Rightarrow> lookup_out option \<times> api_request list" where
  "try_shapes e l a [] = (None, [])"
| "try_shapes e l a (cand # cands) =
     (case attempt e l a cand of
        Some out \<Rightarrow> (Some out, [request_of l a cand])
      | None \<Rightarrow> (let (r, issued) = try_shapes e l a cands
                 in (r, request_of l a cand # issued)))"

fun try_addrs ::
  "env \<Rightarrow> lookup_args \<Rightarrow> shape list \<Rightarrow> string list \<Rightarrow> lookup_out option \<times> api_request list" where
  "try_addrs e l shapes [] = (None, [])"
| "try_addrs e l shapes (a # addrs) =
     (case try_shapes e l a shapes of
        (Some out, issued) \<Rightarrow> (Some out, issued)
      | (None, issued) \<Rightarrow> (let (r, issued') = try_addrs e l shapes addrs
                           in (r, issued @ issued')))"

definition rapidApiLookupStrict ::
  "env \<Rightarrow> string option \<Rightarrow> string option \<Rightarrow> string option \<Rightarrow> string option
     \<Rightarrow> lookup_out \<times> api_request list" where
  "rapidApiLookupStrict e address city state zip_code =
     (if \<not> field_truthy (RAPIDAPI_HOST e) \<or> \<not> field_truthy (RAPIDAPI_KEY e)
      then (Lookup_fail ''missing-keys'', [])
      else
        let l = \<lparr>l_host = or_empty (RAPIDAPI_HOST e), l_key = or_empty (RAPIDAPI_KEY e),
                 l_city = city, l_state = state, l_zip = zip_code\<rparr>;
            addrs = generateAddressVariants address
        in case try_addrs e l candidates addrs of
             (Some out, issued) \<Rightarrow> (out, issued)
           | (None, issued) \<Rightarrow> (Lookup_fail ''no-matching-record'', issued))"

section \<open>The request handler\<close>

text \<open>
  A request carries the \<^verbatim>\<open>X-API-Key\<close> header and the four body fields, each a string or
  missing.  A response is a status and a body: \<^verbatim>\<open>{ok: false, error}\<close> or an \<^verbatim>\<open>ok: true\<close>
  payload, of which the model keeps the fields of the resolution result (source,
  property URL, identifier, valuation, confidence, note); the descriptive fields that
  \<^verbatim>\<open>pick\<close> copies into the payload do not enter any of these.
\<close>

record request =
  x_api_key :: "string option"
  body_address :: "string option"
  body_city :: "string option"
  body_state :: "string option"
  body_zip :: "string option"

record payload =
  source :: string
  property_url :: json
  zpid :: json
  zestimate :: json
  match_confidence :: int
  resp_note :: "string option"

datatype body = Body_error string | Body_ok payload

record response =
  status :: nat
  body :: body

definition ok :: "response \<Rightarrow> bool" where
  "ok r = (case body r of Body_error msg \<Rightarrow> False | Body_ok p \<Rightarrow> True)"

text \<open>What the handler does to the outside, in order.\<close>

datatype event = Ev_fetch api_request | Ev_launch | Ev_goto string

definition checkApiKey :: "env \<Rightarrow> request \<Rightarrow> bool" where
  "checkApiKey e req =
     (if \<not> field_truthy (API_KEY e) then True
      else field_truthy (x_api_key req) \<and> x_api_key req = API_KEY e)"

fun join_with :: "string \<Rightarrow> string list \<Rightarrow> string" where
  "join_with sep [] = []"
| "join_with sep [x] = x"
| "join_with sep (x # y # ys) = x @ sep @ join_with sep (y # ys)"

definition buildSearchUrl ::
  "env \<Rightarrow> string option \<Rightarrow> string option \<Rightarrow> string option \<Rightarrow> string option \<Rightarrow> string" where
  "buildSearchUrl e address city state zip_code =
     (let usersSearchTerm =
            join_with '', '' (map or_empty (filter field_truthy [address, city, state, zip_code]))
      in ''https://www.zillow.com/homes/?searchQueryState='' @ encode_search_state e usersSearchTerm)"

subsection \<open>The expanded response of the API path\<close>

text \<open>\<^verbatim>\<open>sendExpanded(out, res)\<close>, on the fields of a successful \<^verbatim>\<open>out\<close>: \<^verbatim>\<open>tried\<close>, \<^verbatim>\<open>zestimate\<close>,
  \<^verbatim>\<open>zpid\<close>, \<^verbatim>\<open>property_url\<close> and \<^verbatim>\<open>data\<close>.\<close>

definition sendExpanded :: "string \<Rightarrow> json \<Rightarrow> json \<Rightarrow> json \<Rightarrow> json \<Rightarrow> response" where
  "sendExpanded tried_by out_zest out_id out_url data =
     (let d = js_or data (JObj []);
          zest = js_coalesce out_zest
                   (js_coalesce (pick d [''zestimate''])
                      (js_coalesce (pick d [''result.zestimate''])
                         (pick d [''data.zestimate''])))
      in \<lparr>status = 200,
          body = Body_ok
            \<lparr>source = ''rapidapi-fallback '' @ tried_by,
             property_url = out_url,
             zpid = js_coalesce out_id (pick d [''zpid'', ''result.zpid'', ''data.zpid'']),
             zestimate = zest,
             match_confidence = (if truthy zest then 85 else 60),
             resp_note = None\<rparr>\<rparr>)"

subsection \<open>Reading identifier and valuation from a scraped blob\<close>

text \<open>\<^verbatim>\<open>Number(String(v).replace(/\D/g, "")) || null\<close>.\<close>

definition digits_number :: "json \<Rightarrow> json" where
  "digits_number v =
     (let n = nat_of_digits (filter is_digit (js_String v))
      in if n = 0 then JNull else JNum (int n))"

definition extractZpidAndZestimate :: "env \<Rightarrow> json \<Rightarrow> json \<times> json" where
  "extractZpidAndZestimate e anyObj =
     (if \<not> truthy anyObj then (JNull, JNull)
      else
        let zestimateCandidate =
              tryPaths anyObj
                [''homeInfo.zestimate'', ''zestimate'', ''property.zestimate'',
                 ''homeDetails.zestimate'',
                 ''props.pageProps.componentProps.gdpClientCache.default.zestimate''];
            zpidCandidate =
              tryPaths anyObj
                [''homeInfo.zpid'', ''zpid'', ''property.zpid'',
                 ''props.pageProps.componentProps.zpid''];
            zest0 = (case zestimateCandidate of JNum n \<Rightarrow> JNum n | _ \<Rightarrow> JNull);
            zpid0 = (case zpidCandidate of
                       JNum n \<Rightarrow> digits_number zpidCandidate
                     | JStr t \<Rightarrow> digits_number zpidCandidate
                     | _ \<Rightarrow> JNull);
            zest1 = (if \<not> truthy zest0
                     then (case scan_zestimate e anyObj of Some n \<Rightarrow> JNum n | None \<Rightarrow> zest0)
                     else zest0);
            zpid1 = (if \<not> truthy zpid0
                     then (case scan_zpid e anyObj of Some n \<Rightarrow> JNum n | None \<Rightarrow> zpid0)
                     else zpid0)
        in (zpid1, zest1))"

definition detail_candidates :: "json \<Rightarrow> json list" where
  "detail_candidates detailRoot =
     (let componentProps =
            opt_chain (opt_chain (opt_chain detailRoot ''props'') ''pageProps'') ''componentProps''
      in [opt_chain componentProps ''initialReduxState'',
          opt_chain componentProps ''gdpClientCache'',
          opt_chain (opt_chain detailRoot ''props'') ''pageProps'',
          detailRoot])"

text \<open>The loop over the candidates of the detail blob, on the pair \<open>(zpid, zestimate)\<close>.\<close>

fun detail_loop :: "env \<Rightarrow> json \<times> json \<Rightarrow> json list \<Rightarrow> json \<times> json" where
  "detail_loop e (zpid_acc, zest_acc) [] = (zpid_acc, zest_acc)"
| "detail_loop e (zpid_acc, zest_acc) (c # cs) =
     (let (zp, ze) = extractZpidAndZestimate e c
      in detail_loop e
           (if truthy zp \<and> \<not> truthy zpid_acc then zp else zpid_acc,
            if truthy ze \<and> \<not> truthy zest_acc then ze else zest_acc) cs)"

subsection \<open>The handler\<close>

definition error_response :: "nat \<Rightarrow> string \<Rightarrow> response" where
  "error_response st msg = \<lparr>status = st, body = Body_error msg\<rparr>"

definition no_match :: "string \<Rightarrow> string \<Rightarrow> response" where
  "no_match src why =
     \<lparr>status = 200,
      body = Body_ok \<lparr>source = src, property_url = JNull, zpid = JNull, zestimate = JNull,
                      match_confidence = 0, resp_note = Some why\<rparr>\<rparr>"

definition is_array :: "json \<Rightarrow> bool" where
  "is_array v = (case v of JArr xs \<Rightarrow> True | _ \<Rightarrow> False)"

text \<open>The list of search results read from the blob of the search page.\<close>

definition list_results :: "json option \<Rightarrow> json" where
  "list_results parsed =
     (let root = (case parsed of None \<Rightarrow> JNull | Some r \<Rightarrow> r);
          modern =
            opt_chain (opt_chain (opt_chain (opt_chain (opt_chain (opt_chain root
              ''props'') ''pageProps'') ''searchPageState'') ''cat1'') ''searchResults'')
              ''listResults''
      in if is_array modern then modern
         else (case parsed of
                 None \<Rightarrow> modern
               | Some store \<Rightarrow>
                   js_or (opt_chain (opt_chain (opt_chain store ''cat1'') ''searchResults'')
                            ''listResults'')
                     (js_or (opt_chain (opt_chain store ''searchResults'') ''listResults'')
                        JNull)))"

text \<open>The part of the handler after the search results have been read.\<close>

definition scrape_results ::
  "env \<Rightarrow> request \<Rightarrow> string \<Rightarrow> json list \<Rightarrow> response \<times> event list" where
  "scrape_results e req searchUrl results =
     (let (best, score) = pickBestSearchResult results (body_address req) (body_city req)
      in if \<not> truthy best \<or> \<not> truthy (get_prop best ''detailUrl'')
         then (no_match searchUrl ''No matching property found.'', [])
         else
           (case get_prop best ''detailUrl'' of
              JStr u \<Rightarrow>
                (let detailUrl = (if startsWith u ''http'' then u
                                  else ''https://www.zillow.com'' @ u)
                 in case detail_page e detailUrl of
                      Page_throws msg \<Rightarrow> (error_response 200 msg, [Ev_goto detailUrl])
                    | found \<Rightarrow>
                        (let (zpid_found, zest_found) =
                               (case found of
                                  Page_blob (Some detailRoot) \<Rightarrow>
                                    detail_loop e (JNull, JNull) (detail_candidates detailRoot)
                                | _ \<Rightarrow> (JNull, JNull))
                         in (\<lparr>status = 200,
                              body = Body_ok
                                \<lparr>source = searchUrl,
                                 property_url = JStr detailUrl,
                                 zpid = zpid_found,
                                 zestimate = zest_found,
                                 match_confidence =
                                   (if truthy zest_found then 90
                                    else max 20 ((if score \<noteq> 0 then score else 0) * 10)),
                                 resp_note = None\<rparr>\<rparr>,
                             [Ev_goto detailUrl])))
            | _ \<Rightarrow> (error_response 200 ''best.detailUrl.startsWith is not a function'', [])))"

text \<open>The \<^verbatim>\<open>try\<close> block of the handler: the scrape, with the API as fallback when the search
  page has no blob.  Whatever raises inside is answered by the \<^verbatim>\<open>catch\<close> clause with
  status 200 and \<^verbatim>\<open>ok: false\<close>.\<close>

definition scrape :: "env \<Rightarrow> request \<Rightarrow> response \<times> event list" where
  "scrape e req =
     (let searchUrl =
            buildSearchUrl e (body_address req) (body_city req) (body_state req) (body_zip req)
      in case launch e of
           Some msg \<Rightarrow> (error_response 200 msg, [Ev_launch])
         | None \<Rightarrow>
             (case search_page e searchUrl of
                Page_throws msg \<Rightarrow> (error_response 200 msg, [Ev_launch, Ev_goto searchUrl])
              | Page_no_blob \<Rightarrow>
                  (if field_truthy (RAPIDAPI_KEY e) \<and> field_truthy (RAPIDAPI_HOST e)
                   then
                     (let (out, issued) =
                            rapidApiLookupStrict e (body_address req) (body_city req)
                              (body_state req) (body_zip req)
                      in ((case out of
                             Lookup_ok t z i u d \<Rightarrow> sendExpanded t z i u d
                           | Lookup_fail reason \<Rightarrow>
                               no_match ''rapidapi-fallback''
                                 ''No matching record from RapidAPI for the requested city/ZIP.''),
                          [Ev_launch, Ev_goto searchUrl] @ map Ev_fetch issued))
                   else (no_match searchUrl ''No search data blob found.'',
                         [Ev_launch, Ev_goto searchUrl]))
              | Page_blob parsed \<Rightarrow>
                  (case list_results parsed of
                     JArr (r # rs) \<Rightarrow>
                       (let (resp, evs) = scrape_results e req searchUrl (r # rs)
                        in (resp, [Ev_launch, Ev_goto searchUrl] @ evs))
                   | _ \<Rightarrow> (no_match searchUrl ''No search results in blob.'',
                           [Ev_launch, Ev_goto searchUrl]))))"

text \<open>Resolution proper: the API first when \<^verbatim>\<open>PREFER_API_FIRST\<close> is \<^verbatim>\<open>"1"\<close> and the keys are
  set, falling through to the scrape when it finds no match.\<close>

definition resolve :: "env \<Rightarrow> request \<Rightarrow> response \<times> event list" where
  "resolve e req =
     (if PREFER_API_FIRST e = Some ''1'' \<and> field_truthy (RAPIDAPI_KEY e)
           \<and> field_truthy (RAPIDAPI_HOST e)
      then
        (let (out, issued) =
               rapidApiLookupStrict e (body_address req) (body_city req)
                 (body_state req) (body_zip req)
         in case out of
              Lookup_ok t z i u d \<Rightarrow> (sendExpanded t z i u d, map Ev_fetch issued)
            | Lookup_fail reason \<Rightarrow>
                (let (resp, evs) = scrape e req in (resp, map Ev_fetch issued @ evs)))
      else scrape e req)"

definition handler :: "env \<Rightarrow> request \<Rightarrow> response \<times> event list" where
  "handler e req =
     (if \<not> checkApiKey e req then (error_response 401 ''Unauthorized'', [])
      else if \<not> field_truthy (body_address req) \<or> \<not> field_truthy (body_city req)
                \<or> \<not> field_truthy (body_state req)
      then (error_response 400 ''address, city, state are required'', [])
      else resolve e req)"

section \<open>Notions used in the statements\<close>

text \<open>The prefix of a list up to and including its first element that satisfies \<open>P\<close>; the
  whole list when there is none.\<close>

fun upto_first :: "('a \<Rightarrow> bool) \<Rightarrow> 'a list \<Rightarrow> 'a list" where
  "upto_first P [] = []"
| "upto_first P (x # xs) = (if P x then [x] else x # upto_first P xs)"



text \<open>Two environments for concrete runs.  In the first the API is preferred and
  configured, every request is answered with a non-success status, and the browser
  cannot be started.  In the second no API is configured and the search page shows no
  data blob.\<close>

definition api_down_env :: env where
  "api_down_env =
     \<lparr>API_KEY = None, PREFER_API_FIRST = Some ''1'', RAPIDAPI_KEY = Some ''key'',
      RAPIDAPI_HOST = Some ''host'', fetch = (\<lambda>q. Resp_not_ok),
      launch = Some ''browserType.launch: executable not found'',
      search_page = (\<lambda>u. Page_no_blob), detail_page = (\<lambda>u. Page_no_blob),
      encode_search_state = (\<lambda>t. t),
      scan_zestimate = (\<lambda>v. None), scan_zpid = (\<lambda>v. None)\<rparr>"

definition no_blob_env :: env where
  "no_blob_env =
     \<lparr>API_KEY = None, PREFER_API_FIRST = None, RAPIDAPI_KEY = None, RAPIDAPI_HOST = None,
      fetch = (\<lambda>q. Fetch_throws), launch = None,
      search_page = (\<lambda>u. Page_no_blob), detail_page = (\<lambda>u. Page_no_blob),
      encode_search_state = (\<lambda>t. t),
      scan_zestimate = (\<lambda>v. None), scan_zpid = (\<lambda>v. None)\<rparr>"

section \<open>Properties of the ordered path lookup\<close>

lemma nullish_iff: "nullish v \<longleftrightarrow> v = JUndefined \<or> v = JNull"
  by (cases v) simp_all

lemma foldl_walk_step_undefined: "foldl walk_step JUndefined ks = JUndefined"
  by (induction ks) (simp_all add: walk_step_def)

lemma walk_falsy_prefix:
  "\<not> truthy (foldl walk_step obj pre) \<Longrightarrow> post \<noteq> [] \<Longrightarrow> foldl walk_step obj (pre @ post) = JUndefined"
  by (cases post) (simp_all add: walk_step_def foldl_walk_step_undefined)

lemma tryPaths_find:
  "tryPaths obj ps =
     (case List.find (\<lambda>p. \<not> nullish (walk_path obj p)) ps of
        None \<Rightarrow> JUndefined | Some p \<Rightarrow> walk_path obj p)"
  by (induction ps) (simp_all add: Let_def nullish_iff)

lemma pick_find:
  "pick obj ps =
     (case List.find (\<lambda>p. \<not> nullish (walk_path obj p)) ps of
        None \<Rightarrow> JNull | Some p \<Rightarrow> walk_path obj p)"
  by (induction ps) (simp_all add: Let_def nullish_iff)

text \<open>
  Claim C5.  For every record and every ordered list of dotted paths, \<^verbatim>\<open>tryPaths\<close> and
  \<^verbatim>\<open>pick\<close> return the walk of the first path in the list whose walk is neither \<^verbatim>\<open>null\<close>
  nor \<^verbatim>\<open>undefined\<close>, and nothing after that path matters; when no path hits, \<^verbatim>\<open>tryPaths\<close>
  returns \<^verbatim>\<open>undefined\<close> and \<^verbatim>\<open>pick\<close> returns \<^verbatim>\<open>null\<close>.  A path whose walk reaches a missing
  (or otherwise falsy) value with segments still to go fails: its walk is \<^verbatim>\<open>undefined\<close>.
  With the paths \<^verbatim>\<open>["a.b", "c"]\<close> the record \<^verbatim>\<open>{c: 5}\<close> gives 5 and the record
  \<^verbatim>\<open>{a: {b: 7}, c: 5}\<close> gives 7.
\<close>

theorem path_lookup_first_hit:
  "tryPaths obj ps =
     (case List.find (\<lambda>p. \<not> nullish (walk_path obj p)) ps of
        None \<Rightarrow> JUndefined | Some p \<Rightarrow> walk_path obj p)
   \<and> pick obj ps =
     (case List.find (\<lambda>p. \<not> nullish (walk_path obj p)) ps of
        None \<Rightarrow> JNull | Some p \<Rightarrow> walk_path obj p)
   \<and> (\<forall>pre post. split_dot p = pre @ post \<and> post \<noteq> [] \<and> \<not> truthy (foldl walk_step obj pre)
          \<longrightarrow> walk_path obj p = JUndefined)
   \<and> tryPaths (JObj [(''c'', JNum 5)]) [''a.b'', ''c''] = JNum 5
   \<and> tryPaths (JObj [(''a'', JObj [(''b'', JNum 7)]), (''c'', JNum 5)]) [''a.b'', ''c''] = JNum 7
   \<and> pick (JObj [(''c'', JNum 5)]) [''a.b'', ''c''] = JNum 5
   \<and> pick (JObj [(''a'', JObj [(''b'', JNum 7)]), (''c'', JNum 5)]) [''a.b'', ''c''] = JNum 7"
proof -
  have miss: "\<forall>pre post. split_dot p = pre @ post \<and> post \<noteq> [] \<and> \<not> truthy (foldl walk_step obj pre)
          \<longrightarrow> walk_path obj p = JUndefined"
    by (metis walk_path_def walk_falsy_prefix)
  have e1: "tryPaths (JObj [(''c'', JNum 5)]) [''a.b'', ''c''] = JNum 5" by code_simp
  have e2: "tryPaths (JObj [(''a'', JObj [(''b'', JNum 7)]), (''c'', JNum 5)]) [''a.b'', ''c''] = JNum 7"
    by code_simp
  have e3: "pick (JObj [(''c'', JNum 5)]) [''a.b'', ''c''] = JNum 5" by code_simp
  have e4: "pick (JObj [(''a'', JObj [(''b'', JNum 7)]), (''c'', JNum 5)]) [''a.b'', ''c''] = JNum 7"
    by code_simp
  show ?thesis using tryPaths_find pick_find miss e1 e2 e3 e4 by blast
qed

theorem path_lookup_first_hit_witness:
  "walk_path (JObj [(''c'', JNum 5)]) ''a.b'' = JUndefined
   \<and> tryPaths (JObj [(''c'', JNum 5)]) [''c'', ''a.b''] = JNum 5
   \<and> pick (JObj [(''a'', JObj [(''b'', JNum 7)]), (''c'', JNum 5)]) [''c'', ''a.b''] = JNum 5"
proof -
  have h: "split_dot ''a.b'' = [''a''] @ [''b''] \<and> [''b''] \<noteq> []
           \<and> \<not> truthy (foldl walk_step (JObj [(''c'', JNum 5)]) [''a''])"
    by code_simp
  have f1: "List.find (\<lambda>p. \<not> nullish (walk_path (JObj [(''c'', JNum 5)]) p)) [''c'', ''a.b''] = Some ''c''"
    by code_simp
  have w1: "walk_path (JObj [(''c'', JNum 5)]) ''c'' = JNum 5" by code_simp
  have f2: "List.find (\<lambda>p. \<not> nullish (walk_path (JObj [(''a'', JObj [(''b'', JNum 7)]), (''c'', JNum 5)]) p)) [''c'', ''a.b''] = Some ''c''"
    by code_simp
  have w2: "walk_path (JObj [(''a'', JObj [(''b'', JNum 7)]), (''c'', JNum 5)]) ''c'' = JNum 5" by code_simp
  from path_lookup_first_hit [of "JObj [(''c'', JNum 5)]" "[''c'', ''a.b'']" "''a.b''"] h f1 w1
  have a: "walk_path (JObj [(''c'', JNum 5)]) ''a.b'' = JUndefined"
    and b: "tryPaths (JObj [(''c'', JNum 5)]) [''c'', ''a.b''] = JNum 5"
    by (blast, simp)
  from path_lookup_first_hit [of "JObj [(''a'', JObj [(''b'', JNum 7)]), (''c'', JNum 5)]" "[''c'', ''a.b'']" "''a.b''"] f2 w2
  have c: "pick (JObj [(''a'', JObj [(''b'', JNum 7)]), (''c'', JNum 5)]) [''c'', ''a.b''] = JNum 5"
    by simp
  show ?thesis using a b c by simp
qed

section \<open>Properties of the fuzzy selection\<close>



lemma str_includes_Nil [simp]: "str_includes s []"
  by (cases s) simp_all












section \<open>Properties of the address variants\<close>



























section \<open>Properties of the API lookup\<close>

lemma upto_first_append:
  "upto_first P (xs @ ys) = (if \<exists>x\<in>set xs. P x then upto_first P xs else xs @ upto_first P ys)"
  by (induction xs) auto

lemma upto_first_map: "upto_first P (map f xs) = map f (upto_first (\<lambda>x. P (f x)) xs)"
  by (induction xs) auto

lemma find_map: "List.find P (map f xs) = map_option f (List.find (\<lambda>x. P (f x)) xs)"
  by (induction xs) auto

lemma find_app:
  "List.find P (xs @ ys) = (case List.find P xs of None \<Rightarrow> List.find P ys | Some x \<Rightarrow> Some x)"
  by (induction xs) auto

lemma try_shapes_spec:
  "try_shapes e l a shapes =
     ((case List.find (\<lambda>cand. attempt e l a cand \<noteq> None) shapes of
         None \<Rightarrow> None | Some cand \<Rightarrow> attempt e l a cand),
      map (request_of l a) (upto_first (\<lambda>cand. attempt e l a cand \<noteq> None) shapes))"
  by (induction shapes) (auto split: option.splits prod.splits)

lemma try_addrs_Cons_None:
  assumes "try_shapes e l a shapes = (None, issued)"
  shows "try_addrs e l shapes (a # addrs)
           = (fst (try_addrs e l shapes addrs), issued @ snd (try_addrs e l shapes addrs))"
  using assms by (simp add: case_prod_unfold Let_def)

lemma try_addrs_Cons_Some:
  assumes "try_shapes e l a shapes = (Some out, issued)"
  shows "try_addrs e l shapes (a # addrs) = (Some out, issued)"
  using assms by simp

lemma try_addrs_spec:
  "try_addrs e l shapes addrs =
     ((case List.find (\<lambda>(a, cand). attempt e l a cand \<noteq> None) (List.product addrs shapes) of
         None \<Rightarrow> None | Some (a, cand) \<Rightarrow> attempt e l a cand),
      map (\<lambda>(a, cand). request_of l a cand)
        (upto_first (\<lambda>(a, cand). attempt e l a cand \<noteq> None) (List.product addrs shapes)))"
proof (induction addrs)
  case Nil
  then show ?case by simp
next
  case (Cons a addrs)
  let ?acc = "\<lambda>cand. attempt e l a cand \<noteq> None"
  let ?P = "\<lambda>(a, cand). attempt e l a cand \<noteq> None"
  let ?R = "\<lambda>(a, cand). request_of l a cand"
  have prod: "List.product (a # addrs) shapes = map (Pair a) shapes @ List.product addrs shapes"
    by simp
  have fm: "List.find ?P (map (Pair a) shapes) = map_option (Pair a) (List.find ?acc shapes)"
    by (simp add: find_map)
  have um: "upto_first ?P (map (Pair a) shapes) = map (Pair a) (upto_first ?acc shapes)"
    by (simp add: upto_first_map)
  have rm: "\<And>xs. map ?R (map (Pair a) xs) = map (request_of l a) xs" by simp
  show ?case
  proof (cases "List.find ?acc shapes")
    case None
    then have no: "\<not> (\<exists>c\<in>set shapes. ?acc c)" by (simp add: find_None_iff)
    then have no': "\<not> (\<exists>x\<in>set (map (Pair a) shapes). ?P x)" by auto
    have u: "upto_first ?acc shapes = shapes" using no by (induction shapes) auto
    have ts: "try_shapes e l a shapes = (None, map (request_of l a) shapes)"
      unfolding try_shapes_spec None u by simp
    have lhs: "try_addrs e l shapes (a # addrs)
           = (fst (try_addrs e l shapes addrs),
              map (request_of l a) shapes @ snd (try_addrs e l shapes addrs))"
      by (rule try_addrs_Cons_None [OF ts])
    have f: "List.find ?P (List.product (a # addrs) shapes) = List.find ?P (List.product addrs shapes)"
      unfolding prod find_app fm None by simp
    have up: "upto_first ?P (List.product (a # addrs) shapes)
                = map (Pair a) shapes @ upto_first ?P (List.product addrs shapes)"
      unfolding prod upto_first_append using no' by simp
    show ?thesis
      unfolding lhs f up map_append rm Cons.IH by simp
  next
    case (Some c)
    then have acc: "?acc c" and mem: "c \<in> set shapes"
      by (auto simp: find_Some_iff)
    then have yes': "\<exists>x\<in>set (map (Pair a) shapes). ?P x" by auto
    have ts: "try_shapes e l a shapes
                = (attempt e l a c, map (request_of l a) (upto_first ?acc shapes))"
      unfolding try_shapes_spec Some by simp
    from acc obtain out where out: "attempt e l a c = Some out" by auto
    have lhs: "try_addrs e l shapes (a # addrs)
                 = (Some out, map (request_of l a) (upto_first ?acc shapes))"
      by (rule try_addrs_Cons_Some) (simp add: ts out)
    have f: "List.find ?P (List.product (a # addrs) shapes) = Some (a, c)"
      unfolding prod find_app fm Some by simp
    have up: "upto_first ?P (List.product (a # addrs) shapes) = map (Pair a) (upto_first ?acc shapes)"
      unfolding prod upto_first_append um using yes' by simp
    show ?thesis
      unfolding lhs f up rm by (simp add: out)
  qed
qed


text \<open>
  Claim C3.  The requests the lookup issues are those of the pairs (variant, shape) in
  variant-major order: every shape, in its fixed order, for the first variant, then every
  shape for the next variant, and so on (\<open>List.product\<close> of the variants and the shapes),
  up to and including the first pair whose attempt returns a candidate; when none does,
  all of them.  What the loops return is the result of that first accepted attempt.  With
  two variants V1, V2 and two shapes S1, S2 the pairs are (V1,S1), (V1,S2), (V2,S1),
  (V2,S2); if no attempt is accepted all four requests are issued in this order, and if
  (V1,S2) is the first accepted one only the first two are.  \<^verbatim>\<open>rapidApiLookupStrict\<close> runs
  these loops on the output of \<^verbatim>\<open>generateAddressVariants\<close> and the five endpoint shapes
  when host and key are configured, and issues nothing otherwise.
\<close>

theorem attempts_variant_major:
  "snd (try_addrs e l shapes addrs) =
     map (\<lambda>(a, cand). request_of l a cand)
       (upto_first (\<lambda>(a, cand). attempt e l a cand \<noteq> None) (List.product addrs shapes))
   \<and> fst (try_addrs e l shapes addrs) =
     (case List.find (\<lambda>(a, cand). attempt e l a cand \<noteq> None) (List.product addrs shapes) of
        None \<Rightarrow> None | Some (a, cand) \<Rightarrow> attempt e l a cand)
   \<and> List.product [V1, V2] [S1, S2] = [(V1, S1), (V1, S2), (V2, S1), (V2, S2)]
   \<and> ((\<forall>a\<in>set [V1, V2]. \<forall>cand\<in>set [S1, S2]. attempt e l a cand = None) \<longrightarrow>
        snd (try_addrs e l [S1, S2] [V1, V2])
          = [request_of l V1 S1, request_of l V1 S2, request_of l V2 S1, request_of l V2 S2])
   \<and> (attempt e l V1 S1 = None \<and> attempt e l V1 S2 \<noteq> None \<longrightarrow>
        snd (try_addrs e l [S1, S2] [V1, V2]) = [request_of l V1 S1, request_of l V1 S2]
      \<and> fst (try_addrs e l [S1, S2] [V1, V2]) = attempt e l V1 S2)
   \<and> (field_truthy (RAPIDAPI_HOST e) \<and> field_truthy (RAPIDAPI_KEY e) \<longrightarrow>
        snd (rapidApiLookupStrict e address city state zip_code) =
          map (\<lambda>(a, cand). request_of \<lparr>l_host = or_empty (RAPIDAPI_HOST e), l_key = or_empty (RAPIDAPI_KEY e),
                  l_city = city, l_state = state, l_zip = zip_code\<rparr> a cand)
            (upto_first (\<lambda>(a, cand). attempt e \<lparr>l_host = or_empty (RAPIDAPI_HOST e), l_key = or_empty (RAPIDAPI_KEY e),
                  l_city = city, l_state = state, l_zip = zip_code\<rparr> a cand \<noteq> None)
               (List.product (generateAddressVariants address) candidates)))
   \<and> (\<not> (field_truthy (RAPIDAPI_HOST e) \<and> field_truthy (RAPIDAPI_KEY e)) \<longrightarrow>
        rapidApiLookupStrict e address city state zip_code = (Lookup_fail ''missing-keys'', []))"
proof -
  have a: "snd (try_addrs e l shapes addrs) =
     map (\<lambda>(a, cand). request_of l a cand)
       (upto_first (\<lambda>(a, cand). attempt e l a cand \<noteq> None) (List.product addrs shapes))"
    by (simp add: try_addrs_spec)
  have b: "fst (try_addrs e l shapes addrs) =
     (case List.find (\<lambda>(a, cand). attempt e l a cand \<noteq> None) (List.product addrs shapes) of
        None \<Rightarrow> None | Some (a, cand) \<Rightarrow> attempt e l a cand)"
    by (simp add: try_addrs_spec)
  have c: "List.product [V1, V2] [S1, S2] = [(V1, S1), (V1, S2), (V2, S1), (V2, S2)]"
    by simp
  have d: "((\<forall>a\<in>set [V1, V2]. \<forall>cand\<in>set [S1, S2]. attempt e l a cand = None) \<longrightarrow>
        snd (try_addrs e l [S1, S2] [V1, V2])
          = [request_of l V1 S1, request_of l V1 S2, request_of l V2 S1, request_of l V2 S2])"
    by (simp add: try_addrs_spec)
  have f: "(attempt e l V1 S1 = None \<and> attempt e l V1 S2 \<noteq> None \<longrightarrow>
        snd (try_addrs e l [S1, S2] [V1, V2]) = [request_of l V1 S1, request_of l V1 S2]
      \<and> fst (try_addrs e l [S1, S2] [V1, V2]) = attempt e l V1 S2)"
    by (simp add: try_addrs_spec)
  have g: "(field_truthy (RAPIDAPI_HOST e) \<and> field_truthy (RAPIDAPI_KEY e) \<longrightarrow>
        snd (rapidApiLookupStrict e address city state zip_code) =
          map (\<lambda>(a, cand). request_of \<lparr>l_host = or_empty (RAPIDAPI_HOST e), l_key = or_empty (RAPIDAPI_KEY e),
                  l_city = city, l_state = state, l_zip = zip_code\<rparr> a cand)
            (upto_first (\<lambda>(a, cand). attempt e \<lparr>l_host = or_empty (RAPIDAPI_HOST e), l_key = or_empty (RAPIDAPI_KEY e),
                  l_city = city, l_state = state, l_zip = zip_code\<rparr> a cand \<noteq> None)
               (List.product (generateAddressVariants address) candidates)))"
    by (simp add: rapidApiLookupStrict_def Let_def try_addrs_spec split: option.splits prod.splits)
  have h: "(\<not> (field_truthy (RAPIDAPI_HOST e) \<and> field_truthy (RAPIDAPI_KEY e)) \<longrightarrow>
        rapidApiLookupStrict e address city state zip_code = (Lookup_fail ''missing-keys'', []))"
    by (auto simp: rapidApiLookupStrict_def)
  from a b c d f g h show ?thesis by blast
qed

theorem attempts_variant_major_witness:
  "snd (try_addrs api_down_env
          \<lparr>l_host = ''host'', l_key = ''key'', l_city = Some ''Austin'', l_state = Some ''TX'',
           l_zip = None\<rparr>
          [\<lparr>path = ''/property'', params = params_citystatezip\<rparr>,
           \<lparr>path = ''/propertyDetails'', params = params_fields\<rparr>]
          [''1 Main St'', ''1 Main Street''])
     = [request_of \<lparr>l_host = ''host'', l_key = ''key'', l_city = Some ''Austin'',
                    l_state = Some ''TX'', l_zip = None\<rparr> ''1 Main St''
          \<lparr>path = ''/property'', params = params_citystatezip\<rparr>,
        request_of \<lparr>l_host = ''host'', l_key = ''key'', l_city = Some ''Austin'',
                    l_state = Some ''TX'', l_zip = None\<rparr> ''1 Main St''
          \<lparr>path = ''/propertyDetails'', params = params_fields\<rparr>,
        request_of \<lparr>l_host = ''host'', l_key = ''key'', l_city = Some ''Austin'',
                    l_state = Some ''TX'', l_zip = None\<rparr> ''1 Main Street''
          \<lparr>path = ''/property'', params = params_citystatezip\<rparr>,
        request_of \<lparr>l_host = ''host'', l_key = ''key'', l_city = Some ''Austin'',
                    l_state = Some ''TX'', l_zip = None\<rparr> ''1 Main Street''
          \<lparr>path = ''/propertyDetails'', params = params_fields\<rparr>]"
proof -
  have none: "\<And>l a cand. attempt api_down_env l a cand = None"
    by (simp add: attempt_def api_down_env_def)
  show ?thesis
    using attempts_variant_major [of api_down_env
          "\<lparr>l_host = ''host'', l_key = ''key'', l_city = Some ''Austin'', l_state = Some ''TX'',
           l_zip = None\<rparr>" _ _ "''1 Main St''" "''1 Main Street''"
          "\<lparr>path = ''/property'', params = params_citystatezip\<rparr>"
          "\<lparr>path = ''/propertyDetails'', params = params_fields\<rparr>"] none
    by blast
qed

section \<open>Properties of strict validation\<close>






section \<open>Properties of the required-fields check\<close>

lemma field_truthy_iff: "field_truthy x \<longleftrightarrow> (\<exists>s. x = Some s \<and> s \<noteq> [])"
  by (cases x) (simp_all add: field_truthy_def)

text \<open>
  Claim C8, as the code has it.  For every request that passes the API-key check and
  whose address, city or state is missing or the empty string, the handler answers at
  once with status 400 and \<^verbatim>\<open>ok: false\<close>, and nothing has been done to the outside: no
  request issued, no browser started.  For every request that passes the check and whose
  three fields are non-empty strings, resolution proceeds; the fields are not trimmed, so
  a field made of white space counts as present.  A request that fails the API-key check
  is answered with status 401 before its fields are looked at.
\<close>

theorem required_fields_check:
  "(checkApiKey e req
      \<and> (\<not> field_truthy (body_address req) \<or> \<not> field_truthy (body_city req)
           \<or> \<not> field_truthy (body_state req))
      \<longrightarrow> handler e req = (error_response 400 ''address, city, state are required'', []))
   \<and> (checkApiKey e req \<and> field_truthy (body_address req) \<and> field_truthy (body_city req)
        \<and> field_truthy (body_state req)
      \<longrightarrow> handler e req = resolve e req)
   \<and> (\<not> checkApiKey e req \<longrightarrow> handler e req = (error_response 401 ''Unauthorized'', []))
   \<and> status (error_response 400 msg) = 400 \<and> \<not> ok (error_response 400 msg)
   \<and> (field_truthy x \<longleftrightarrow> (\<exists>s. x = Some s \<and> s \<noteq> []))"
  by (auto simp: handler_def error_response_def ok_def field_truthy_iff)

theorem required_fields_check_witness:
  "handler no_blob_env
     \<lparr>x_api_key = None, body_address = Some ''9 Elm Rd'', body_city = Some [],
      body_state = Some ''TX'', body_zip = None\<rparr>
     = (error_response 400 ''address, city, state are required'', [])
   \<and> handler no_blob_env
     \<lparr>x_api_key = None, body_address = Some ''9 Elm Rd'', body_city = Some ''Austin'',
      body_state = Some ''TX'', body_zip = None\<rparr>
     = resolve no_blob_env
         \<lparr>x_api_key = None, body_address = Some ''9 Elm Rd'', body_city = Some ''Austin'',
          body_state = Some ''TX'', body_zip = None\<rparr>"
proof -
  have k: "\<And>r. checkApiKey no_blob_env r" by (simp add: checkApiKey_def no_blob_env_def field_truthy_def)
  have t: "field_truthy (Some ''9 Elm Rd'') \<and> field_truthy (Some ''Austin'') \<and> field_truthy (Some ''TX'')
           \<and> \<not> field_truthy (Some [])"
    by (simp add: field_truthy_def)
  from required_fields_check [of no_blob_env "\<lparr>x_api_key = None, body_address = Some ''9 Elm Rd'', body_city = Some [],
      body_state = Some ''TX'', body_zip = None\<rparr>"] k t
  have a: "handler no_blob_env
     \<lparr>x_api_key = None, body_address = Some ''9 Elm Rd'', body_city = Some [],
      body_state = Some ''TX'', body_zip = None\<rparr>
     = (error_response 400 ''address, city, state are required'', [])" by simp
  from required_fields_check [of no_blob_env "\<lparr>x_api_key = None, body_address = Some ''9 Elm Rd'', body_city = Some ''Austin'',
      body_state = Some ''TX'', body_zip = None\<rparr>"] k t
  have b: "handler no_blob_env
     \<lparr>x_api_key = None, body_address = Some ''9 Elm Rd'', body_city = Some ''Austin'',
      body_state = Some ''TX'', body_zip = None\<rparr>
     = resolve no_blob_env
         \<lparr>x_api_key = None, body_address = Some ''9 Elm Rd'', body_city = Some ''Austin'',
          body_state = Some ''TX'', body_zip = None\<rparr>" by simp
  from a b show ?thesis by blast
qed

theorem required_fields_check_counterexample:
  "trim ''   '' = []
   \<and> handler no_blob_env
       \<lparr>x_api_key = None, body_address = Some ''   '', body_city = Some ''Austin'',
        body_state = Some ''TX'', body_zip = None\<rparr>
     = (no_match ''https://www.zillow.com/homes/?searchQueryState=   , Austin, TX''
          ''No search data blob found.'',
        [Ev_launch, Ev_goto ''https://www.zillow.com/homes/?searchQueryState=   , Austin, TX''])
   \<and> status (no_match ''https://www.zillow.com/homes/?searchQueryState=   , Austin, TX''
          ''No search data blob found.'') = 200"
  by code_simp

section \<open>Properties of the confidence and of the no-match answer\<close>















end
